theory Spec2Isabelle
  imports Main
begin

section \<open>Data model\<close>

text \<open>
  The database handle \<open>D1Database\<close> and the mounted Vue instance \<open>App\<close> are opaque to
  this package: they are only stored and passed on. Both are identified by a number.
\<close>

type_synonym D1Database = nat
type_synonym App = nat

text \<open>
  Modelled from the spec: the types \<open>MigrationFile\<close> and \<open>MigrationResult\<close> are imported
  from the external core library; their shape is
  \<open>{ name: string, content: string }\<close> and
  \<open>{ success: boolean, executed: number, error?: { message: string } }\<close>.
\<close>

datatype MigrationFile = MigrationFile (file_name: string) (content: string)

datatype ErrorDescriptor = ErrorDescriptor (message: string)

record MigrationResult =
  success :: bool
  executed :: int
  error :: "ErrorDescriptor option"

text \<open>
  A JavaScript \<open>Error\<close> object, known by its message, and the values a \<open>throw\<close> can
  carry: an \<open>Error\<close> object (\<open>error instanceof Error\<close> holds) or something else, of
  which the code only ever takes \<open>String(error)\<close>. A number, bigint or symbol is known by
  the string that \<open>String\<close> makes of it. An object that is not an \<open>Error\<close> is known by
  what its conversion to a string does, which runs the object's own \<open>toString\<close>: it returns
  a string (\<open>[object Object]\<close> for a plain object) or throws a value (a \<open>TypeError\<close> for
  \<open>Object.create(null)\<close>, anything for a \<open>toString\<close> that throws).
\<close>

datatype Error = Error (error_message: string)

datatype js_value = ErrorObject Error | Other js_other
  and js_other =
      JsString string
    | JsBool bool
    | JsUndefined
    | JsNull
    | JsPrimitive string
    | JsObject "js_value + string"

text \<open>\<open>String(v)\<close> on the values that are not \<open>Error\<close> objects: the string, or what the
  conversion throws.\<close>

fun String :: "js_other \<Rightarrow> js_value + string" where
  "String (JsString s) = Inr s"
| "String (JsBool b) = Inr (if b then ''true'' else ''false'')"
| "String JsUndefined = Inr ''undefined''"
| "String JsNull = Inr ''null''"
| "String (JsPrimitive s) = Inr s"
| "String (JsObject conversion) = conversion"

text \<open>
  The outcome of awaiting a promise: it is fulfilled with a value, rejected with a thrown
  value, or never settles. A function that throws synchronously is a rejection too.
\<close>

datatype 'a promise = Resolved 'a | Rejected js_value | Pending

text \<open>\<open>DatabaseContext\<close> and \<open>AppState\<close> (\<open>types.ts\<close>): the latter has the same three
  fields and \<open>vueApp\<close>.\<close>

record DatabaseContext =
  db :: "D1Database option"
  migrationsComplete :: bool
  migrationResult :: "MigrationResult option"

record AppState = DatabaseContext +
  vueApp :: "App option"

text \<open>
  \<open>LifecycleProps\<close>: \<open>bootstrap\<close> reads only \<open>props.db\<close>, which is optional.
\<close>

datatype LifecycleProps = LifecycleProps (props_name: string) (props_db: "D1Database option")

text \<open>
  \<open>CreateAppOptions\<close>, without the two fields that only the Vue bridge reads (\<open>root\<close>,
  \<open>configureApp\<close>). A callback is user code: called with its argument it returns
  (\<open>None\<close>) or throws a value (\<open>Some v\<close>). What it returns is dropped by the caller.
\<close>

type_synonym 'a callback = "'a \<Rightarrow> js_value option"

record CreateAppOptions =
  name :: string
  migrations :: "MigrationFile list option"
  onMigrationsComplete :: "MigrationResult callback option"
  onMigrationError :: "Error callback option"

text \<open>What the bootstrap code does to the outside, in order.\<close>

datatype event =
    Console_warn string
  | Console_error string js_value
  | Call_runMigrations D1Database "MigrationFile list"
  | Call_onMigrationsComplete MigrationResult
  | Call_onMigrationError Error

text \<open>
  The two records that \<open>createApp\<close> allocates for one lifecycle instance, and the trace of
  the outside effects so far.
\<close>

record world =
  state :: AppState
  databaseContext :: DatabaseContext
  trace :: "event list"

section \<open>createApp and its bootstrap\<close>

text \<open>The closure variables as \<open>createApp\<close> initialises them.\<close>

definition createApp_world :: world where
  "createApp_world =
     \<lparr> state = \<lparr> db = None, migrationsComplete = False, migrationResult = None,
                 vueApp = None \<rparr>,
       databaseContext = \<lparr> db = None, migrationsComplete = False, migrationResult = None \<rparr>,
       trace = [] \<rparr>"

text \<open>\<open>migrations = []\<close> in the destructuring of the options.\<close>

definition migrations_of :: "CreateAppOptions \<Rightarrow> MigrationFile list" where
  "migrations_of opts = (case migrations opts of None \<Rightarrow> [] | Some ms \<Rightarrow> ms)"

definition emit :: "event \<Rightarrow> world \<Rightarrow> world" where
  "emit e w = w\<lparr> trace := trace w @ [e] \<rparr>"

text \<open>\<open>state.migrationsComplete = b; databaseContext.migrationsComplete = b\<close>.\<close>

definition set_migrationsComplete :: "bool \<Rightarrow> world \<Rightarrow> world" where
  "set_migrationsComplete b w =
     w\<lparr> state := (state w)\<lparr> migrationsComplete := b \<rparr>,
        databaseContext := (databaseContext w)\<lparr> migrationsComplete := b \<rparr> \<rparr>"

text \<open>\<open>state.db = db; databaseContext.db = db\<close>.\<close>

definition set_db :: "D1Database \<Rightarrow> world \<Rightarrow> world" where
  "set_db d w =
     w\<lparr> state := (state w)\<lparr> db := Some d \<rparr>,
        databaseContext := (databaseContext w)\<lparr> db := Some d \<rparr> \<rparr>"

text \<open>The four assignments after the \<open>await\<close>, in the source's order.\<close>

definition store_result :: "MigrationResult \<Rightarrow> world \<Rightarrow> world" where
  "store_result r w =
     (let s1 = (state w)\<lparr> migrationResult := Some r \<rparr>;
          s2 = s1\<lparr> migrationsComplete := success r \<rparr>;
          c1 = (databaseContext w)\<lparr> migrationResult := Some r \<rparr>;
          c2 = c1\<lparr> migrationsComplete := success r \<rparr>
      in w\<lparr> state := s2, databaseContext := c2 \<rparr>)"

text \<open>
  \<open>cb?.(arg)\<close>: when the callback is absent nothing happens, and the argument is not
  evaluated. Otherwise the argument is evaluated, which may throw (\<open>Inl\<close>), and the callback
  is called with its value; what is thrown on the way, if anything, is returned.
\<close>

definition call_optional ::
  "'a callback option \<Rightarrow> ('a \<Rightarrow> event) \<Rightarrow> js_value + 'a \<Rightarrow> world
     \<Rightarrow> js_value option \<times> world" where
  "call_optional cb ev arg w =
     (case cb of
        None \<Rightarrow> (None, w)
      | Some f \<Rightarrow>
          (case arg of
             Inl thrown \<Rightarrow> (Some thrown, w)
           | Inr x \<Rightarrow> (f x, emit (ev x) w)))"

text \<open>\<open>error instanceof Error ? error : new Error(String(error))\<close>.\<close>

fun as_Error :: "js_value \<Rightarrow> js_value + Error" where
  "as_Error (ErrorObject e) = Inr e"
| "as_Error (Other v) = (case String v of Inl thrown \<Rightarrow> Inl thrown | Inr s \<Rightarrow> Inr (Error s))"

text \<open>
  \<open>bootstrap\<close> up to its only \<open>await\<close>: either it has returned, or it is suspended on
  \<open>runMigrations(db, { migrations })\<close>.
\<close>

datatype bootstrap_step = Returned world | Awaiting D1Database "MigrationFile list" world

definition bootstrap_begin :: "CreateAppOptions \<Rightarrow> LifecycleProps \<Rightarrow> world \<Rightarrow> bootstrap_step" where
  "bootstrap_begin opts props w =
     (case props_db props of
        None \<Rightarrow>
          Returned (set_migrationsComplete True
            (emit (Console_warn (''['' @ name opts @ ''] No database provided in lifecycle props'')) w))
      | Some d \<Rightarrow>
          (let w1 = set_db d w in
           if length (migrations_of opts) > 0
           then Awaiting d (migrations_of opts)
                  (emit (Call_runMigrations d (migrations_of opts)) w1)
           else Returned (set_migrationsComplete True w1)))"

text \<open>The body of the \<open>try\<close> after the \<open>await\<close> has produced \<open>result\<close>.\<close>

definition try_body ::
  "CreateAppOptions \<Rightarrow> MigrationResult \<Rightarrow> world \<Rightarrow> js_value option \<times> world" where
  "try_body opts result w =
     (let w1 = store_result result w in
      if success result
      then call_optional (onMigrationsComplete opts) Call_onMigrationsComplete (Inr result) w1
      else (case error result of
              Some d \<Rightarrow>
                call_optional (onMigrationError opts) Call_onMigrationError
                  (Inr (Error (message d))) w1
            | None \<Rightarrow> (None, w1)))"

text \<open>The \<open>catch\<close> block; what is thrown there, by the conversion of \<open>error\<close> or by
  \<open>onMigrationError\<close>, leaves \<open>bootstrap\<close>.\<close>

definition catch_block ::
  "CreateAppOptions \<Rightarrow> js_value \<Rightarrow> world \<Rightarrow> unit promise \<times> world" where
  "catch_block opts err w =
     (let w1 = emit (Console_error (''['' @ name opts @ ''] Migration failed:'') err) w;
          w2 = set_migrationsComplete False w1
      in case call_optional (onMigrationError opts) Call_onMigrationError (as_Error err) w2 of
           (None, w3) \<Rightarrow> (Resolved (), w3)
         | (Some v, w3) \<Rightarrow> (Rejected v, w3))"

text \<open>\<open>bootstrap\<close> from the point where the awaited promise settles.\<close>

definition bootstrap_resume ::
  "CreateAppOptions \<Rightarrow> MigrationResult promise \<Rightarrow> world \<Rightarrow> unit promise \<times> world" where
  "bootstrap_resume opts outcome w =
     (case outcome of
        Pending \<Rightarrow> (Pending, w)
      | Rejected err \<Rightarrow> catch_block opts err w
      | Resolved result \<Rightarrow>
          (case try_body opts result w of
             (None, w1) \<Rightarrow> (Resolved (), w1)
           | (Some err, w1) \<Rightarrow> catch_block opts err w1))"

text \<open>
  The whole of \<open>bootstrap\<close>. The migration runner is the external function
  \<open>runMigrations\<close>; what it does at this call is the parameter \<open>runner\<close>.
\<close>

type_synonym runner = "D1Database \<Rightarrow> MigrationFile list \<Rightarrow> MigrationResult promise"

definition createApp_bootstrap ::
  "CreateAppOptions \<Rightarrow> runner \<Rightarrow> LifecycleProps \<Rightarrow> world \<Rightarrow> unit promise \<times> world" where
  "createApp_bootstrap opts runner props w =
     (case bootstrap_begin opts props w of
        Returned w1 \<Rightarrow> (Resolved (), w1)
      | Awaiting d ms w1 \<Rightarrow> bootstrap_resume opts (runner d ms) w1)"

section \<open>runLifecycleFn and combineLifecycles\<close>

text \<open>
  Modelled from the spec: the type \<open>LifecycleFn<T>\<close> that \<open>createApp.ts\<close> imports is not
  declared in the \<open>types.ts\<close> at hand; a lifecycle phase is a single function or an ordered
  sequence of functions, each taking the props and returning a promise of nothing. Such a
  function acts on whatever it can reach, the type \<open>'w\<close>.
\<close>

type_synonym ('p, 'w) LifecycleFn = "'p \<Rightarrow> 'w \<Rightarrow> unit promise \<times> 'w"

datatype ('p, 'w) phase = Single "('p, 'w) LifecycleFn" | Array "('p, 'w) LifecycleFn list"

record ('p, 'w) AppLifecycle =
  bootstrap :: "('p, 'w) phase"
  mount :: "('p, 'w) phase"
  unmount :: "('p, 'w) phase"

text \<open>\<open>for (const f of fn) { await f(props); }\<close>: a rejection leaves the loop, a promise
  that never settles stops it.\<close>

fun run_array :: "('p, 'w) LifecycleFn list \<Rightarrow> 'p \<Rightarrow> 'w \<Rightarrow> unit promise \<times> 'w" where
  "run_array [] props w = (Resolved (), w)"
| "run_array (f # fs) props w =
     (case f props w of
        (Resolved u, w1) \<Rightarrow> run_array fs props w1
      | (Rejected v, w1) \<Rightarrow> (Rejected v, w1)
      | (Pending, w1) \<Rightarrow> (Pending, w1))"

fun runLifecycleFn :: "('p, 'w) phase \<Rightarrow> 'p \<Rightarrow> 'w \<Rightarrow> unit promise \<times> 'w" where
  "runLifecycleFn (Array fs) props w = run_array fs props w"
| "runLifecycleFn (Single f) props w =
     (case f props w of
        (Resolved u, w1) \<Rightarrow> (Resolved (), w1)
      | (Rejected v, w1) \<Rightarrow> (Rejected v, w1)
      | (Pending, w1) \<Rightarrow> (Pending, w1))"

definition combineLifecycles ::
  "('p, 'w) AppLifecycle \<Rightarrow> ('p, 'w) AppLifecycle \<Rightarrow> ('p, 'w) AppLifecycle" where
  "combineLifecycles eldrinLifecycle vueLifecycle =
     \<lparr> bootstrap = Single (\<lambda>props w.
         (case runLifecycleFn (bootstrap eldrinLifecycle) props w of
            (Resolved u, w1) \<Rightarrow> runLifecycleFn (bootstrap vueLifecycle) props w1
          | (Rejected v, w1) \<Rightarrow> (Rejected v, w1)
          | (Pending, w1) \<Rightarrow> (Pending, w1))),
       mount = Single (\<lambda>props w. runLifecycleFn (mount vueLifecycle) props w),
       unmount = Single (\<lambda>props w. runLifecycleFn (unmount vueLifecycle) props w) \<rparr>"

text \<open>
  The lifecycle object that \<open>createApp\<close> returns: its own \<open>bootstrap\<close>, and the \<open>mount\<close> and
  \<open>unmount\<close> of the lifecycle that the Vue bridge \<open>singleSpaVue\<close> built, which is a parameter.
\<close>

definition createApp ::
  "CreateAppOptions \<Rightarrow> runner \<Rightarrow> (LifecycleProps, world) AppLifecycle
     \<Rightarrow> (LifecycleProps, world) AppLifecycle" where
  "createApp opts runner vueLifecycles =
     \<lparr> bootstrap = Single (createApp_bootstrap opts runner),
       mount = mount vueLifecycles,
       unmount = unmount vueLifecycles \<rparr>"

text \<open>The functions of a phase, in the order in which they run.\<close>

fun phase_fns :: "('p, 'w) phase \<Rightarrow> ('p, 'w) LifecycleFn list" where
  "phase_fns (Single f) = [f]"
| "phase_fns (Array fs) = fs"

section \<open>Composables\<close>

text \<open>
  \<open>EldrinGlobal\<close> (\<open>types.ts\<close>). \<open>Record<string, string>\<close> is a list of key and value pairs,
  \<open>{}\<close> the empty one. The capability \<open>getAuthHeaders\<close> is a function of the shell: called, it
  returns the headers or throws.
\<close>

type_synonym headers = "(string \<times> string) list"

datatype User = User (user_id: string) (user_email: string) (user_name: "string option")

record EldrinGlobal =
  getAuthHeaders :: "(unit \<Rightarrow> js_value + headers) option"
  user :: "User option"

text \<open>The property \<open>__ELDRIN__\<close> of \<open>window\<close>, which may be missing.\<close>

type_synonym window = "EldrinGlobal option"

definition getEldrinGlobal :: "window \<Rightarrow> EldrinGlobal option" where
  "getEldrinGlobal win = (case win of Some g \<Rightarrow> Some g | None \<Rightarrow> None)"

definition useEldrinGlobal :: "window \<Rightarrow> EldrinGlobal option" where
  "useEldrinGlobal win = getEldrinGlobal win"

text \<open>\<open>eldrin?.getAuthHeaders?.() ?? {}\<close>.\<close>

definition useAuthHeaders :: "window \<Rightarrow> js_value + headers" where
  "useAuthHeaders win =
     (case useEldrinGlobal win of
        None \<Rightarrow> Inr []
      | Some eldrin \<Rightarrow>
          (case getAuthHeaders eldrin of
             None \<Rightarrow> Inr []
           | Some f \<Rightarrow> f ()))"

text \<open>
  The place from which a composable is called: what is provided there under
  \<open>DatabaseContextKey\<close>, if anything, the console, and what Vue's \<open>inject\<close> writes to the
  console when it is called there without a default value and finds nothing. Vue is not part
  of this package: its development build warns in that case, its production build writes
  nothing (\<open>inject_output\<close> is empty).
\<close>

record site =
  injected :: "DatabaseContext option"
  inject_output :: "string list"
  console :: "string list"

definition console_warn :: "string \<Rightarrow> site \<Rightarrow> site" where
  "console_warn msg s = s\<lparr> console := console s @ [msg] \<rparr>"

text \<open>\<open>inject(DatabaseContextKey)\<close>: the provided context, or \<open>undefined\<close> after Vue's own
  output.\<close>

definition inject :: "site \<Rightarrow> DatabaseContext option \<times> site" where
  "inject s =
     (case injected s of
        Some context \<Rightarrow> (Some context, s)
      | None \<Rightarrow> (None, s\<lparr> console := console s @ inject_output s \<rparr>))"

definition useDatabase :: "site \<Rightarrow> D1Database option \<times> site" where
  "useDatabase s =
     (case inject s of
        (None, s1) \<Rightarrow>
          (None, console_warn ''useDatabase() called outside of Eldrin app context'' s1)
      | (Some context, s1) \<Rightarrow> (db context, s1))"

definition useDatabaseContext :: "site \<Rightarrow> DatabaseContext \<times> site" where
  "useDatabaseContext s =
     (case inject s of
        (None, s1) \<Rightarrow>
          (\<lparr> db = None, migrationsComplete = False, migrationResult = None \<rparr>,
           console_warn ''useDatabaseContext() called outside of Eldrin app context'' s1)
      | (Some context, s1) \<Rightarrow> (context, s1))"

definition useMigrationsComplete :: "site \<Rightarrow> bool \<times> site" where
  "useMigrationsComplete s =
     (case inject s of
        (None, s1) \<Rightarrow> (False, s1)
      | (Some context, s1) \<Rightarrow> (migrationsComplete context, s1))"

section \<open>Notions used in the statements\<close>

text \<open>
  The two records agree on their three shared fields; the world in which \<open>bootstrap\<close> is
  suspended or from which it has returned; a callback that is absent or returns normally from
  a call; the calls made to an optional callback; the number of calls of the runner.
\<close>

definition agree :: "world \<Rightarrow> bool" where
  "agree w =
     (db (state w) = db (databaseContext w) \<and>
      migrationsComplete (state w) = migrationsComplete (databaseContext w) \<and>
      migrationResult (state w) = migrationResult (databaseContext w))"

fun world_of :: "bootstrap_step \<Rightarrow> world" where
  "world_of (Returned w) = w"
| "world_of (Awaiting d ms w) = w"

definition returns_normally :: "'a callback option \<Rightarrow> 'a \<Rightarrow> bool" where
  "returns_normally cb x = (case cb of None \<Rightarrow> True | Some f \<Rightarrow> f x = None)"

definition call_if_supplied :: "'a callback option \<Rightarrow> event \<Rightarrow> event list" where
  "call_if_supplied cb e = (case cb of None \<Rightarrow> [] | Some f \<Rightarrow> [e])"

fun is_runner_call :: "event \<Rightarrow> bool" where
  "is_runner_call (Call_runMigrations d ms) = True"
| "is_runner_call e = False"

definition runner_calls :: "world \<Rightarrow> nat" where
  "runner_calls w = length (filter is_runner_call (trace w))"

section \<open>Example inputs\<close>

definition example_migrations :: "MigrationFile list" where
  "example_migrations = [MigrationFile ''001_init.sql'' ''CREATE TABLE items (id INTEGER)'']"

definition props_with_db :: LifecycleProps where
  "props_with_db = LifecycleProps ''my-vue-app'' (Some 1)"

definition props_without_db :: LifecycleProps where
  "props_without_db = LifecycleProps ''my-vue-app'' None"

definition cb_returns :: "'a callback" where
  "cb_returns x = None"

definition cb_throws :: "'a callback" where
  "cb_throws x = Some (ErrorObject (Error ''callback failed''))"

definition cb_rethrows :: "Error callback" where
  "cb_rethrows e = Some (ErrorObject e)"

definition cb_throws_on_disk_full :: "Error callback" where
  "cb_throws_on_disk_full e =
     (if error_message e = ''disk full'' then Some (ErrorObject (Error ''handler failed''))
      else None)"

definition example_options ::
  "MigrationResult callback option \<Rightarrow> Error callback option \<Rightarrow> CreateAppOptions" where
  "example_options on_complete on_error =
     \<lparr> name = ''my-vue-app'', migrations = Some example_migrations,
       onMigrationsComplete = on_complete, onMigrationError = on_error \<rparr>"

definition result_ok :: MigrationResult where
  "result_ok = \<lparr> success = True, executed = 1, error = None \<rparr>"

definition result_failed :: MigrationResult where
  "result_failed = \<lparr> success = False, executed = 0, error = Some (ErrorDescriptor ''disk full'') \<rparr>"

definition result_silent :: MigrationResult where
  "result_silent = \<lparr> success = False, executed = 0, error = None \<rparr>"

definition runner_resolves :: "MigrationResult \<Rightarrow> runner" where
  "runner_resolves r d ms = Resolved r"

definition runner_rejects :: "js_value \<Rightarrow> runner" where
  "runner_rejects v d ms = Rejected v"

text \<open>What \<open>Object.create(null)\<close> is to \<open>String\<close>: the conversion throws a \<open>TypeError\<close>.\<close>

definition null_prototype_object :: js_value where
  "null_prototype_object =
     Other (JsObject (Inl (ErrorObject (Error ''Cannot convert object to primitive value''))))"

definition capability_throws :: "unit \<Rightarrow> js_value + headers" where
  "capability_throws u = Inl (ErrorObject (Error ''not signed in''))"

definition capability_bearer :: "unit \<Rightarrow> js_value + headers" where
  "capability_bearer u = Inr [(''Authorization'', ''Bearer t'')]"

text \<open>A component tree without the context, under Vue's development build and under its
  production build, and one with the context. The line that the development build writes
  stands for Vue's own wording.\<close>

definition site_development :: site where
  "site_development =
     \<lparr> injected = None,
       inject_output = [''[Vue warn]: injection Symbol(eldrin-database) not found.''],
       console = [] \<rparr>"

definition site_production :: site where
  "site_production = \<lparr> injected = None, inject_output = [], console = [] \<rparr>"

definition site_provided :: site where
  "site_provided =
     \<lparr> injected = Some \<lparr> db = Some 1, migrationsComplete = True,
                           migrationResult = Some result_ok \<rparr>,
       inject_output = [''[Vue warn]: injection Symbol(eldrin-database) not found.''],
       console = [] \<rparr>"

definition probe :: "string \<Rightarrow> (unit, string list) LifecycleFn" where
  "probe tag props lg = (Resolved (), lg @ [tag])"

definition probe_A :: "(unit, string list) AppLifecycle" where
  "probe_A = \<lparr> bootstrap = Array [probe ''A.bootstrap.1'', probe ''A.bootstrap.2''],
               mount = Single (probe ''A.mount''), unmount = Single (probe ''A.unmount'') \<rparr>"

definition probe_B :: "(unit, string list) AppLifecycle" where
  "probe_B = \<lparr> bootstrap = Single (probe ''B.bootstrap''),
               mount = Array [probe ''B.mount.1'', probe ''B.mount.2''],
               unmount = Single (probe ''B.unmount'') \<rparr>"

section \<open>Bootstrap: the three outcomes of the runner\<close>

lemmas world_simps = emit_def set_migrationsComplete_def set_db_def store_result_def
  call_optional_def

lemma begin_with_db:
  "props_db props = Some d \<Longrightarrow> migrations_of opts \<noteq> [] \<Longrightarrow>
   bootstrap_begin opts props w =
     Awaiting d (migrations_of opts) (emit (Call_runMigrations d (migrations_of opts)) (set_db d w))"
  by (simp add: bootstrap_begin_def)

lemma bootstrap_with_db:
  "props_db props = Some d \<Longrightarrow> migrations_of opts \<noteq> [] \<Longrightarrow>
   createApp_bootstrap opts runner props w =
     bootstrap_resume opts (runner d (migrations_of opts))
       (emit (Call_runMigrations d (migrations_of opts)) (set_db d w))"
  by (simp add: createApp_bootstrap_def begin_with_db)

lemmas example_defs = example_migrations_def props_with_db_def props_without_db_def
  cb_returns_def cb_throws_def cb_rethrows_def cb_throws_on_disk_full_def example_options_def
  result_ok_def result_failed_def result_silent_def runner_resolves_def runner_rejects_def
  null_prototype_object_def
  migrations_of_def returns_normally_def call_if_supplied_def createApp_world_def

lemmas bootstrap_defs = createApp_bootstrap_def bootstrap_begin_def bootstrap_resume_def
  try_body_def catch_block_def world_simps Let_def

text \<open>
  Whatever the callbacks do, a result with which the runner resolves is stored in both
  records, beside the database handle.
\<close>

lemma bootstrap_stores_result:
  assumes "props_db props = Some d" and "migrations_of opts \<noteq> []"
    and "runner d (migrations_of opts) = Resolved r"
  shows "migrationResult (state (snd (createApp_bootstrap opts runner props w))) = Some r \<and>
         migrationResult (databaseContext (snd (createApp_bootstrap opts runner props w))) = Some r \<and>
         db (state (snd (createApp_bootstrap opts runner props w))) = Some d \<and>
         db (databaseContext (snd (createApp_bootstrap opts runner props w))) = Some d"
  using assms
  by (auto simp: bootstrap_with_db bootstrap_resume_def try_body_def catch_block_def world_simps
      Let_def split: option.splits sum.splits prod.splits)

text \<open>
  When the runner reports success and \<open>onMigrationsComplete\<close> is absent or returns normally,
  \<open>bootstrap\<close> resolves with \<open>migrationsComplete\<close> true and the result stored in both
  records, after one call of the runner and, when supplied, one call of the callback.
\<close>

lemma bootstrap_success_callback_returns:
  assumes "props_db props = Some d" and "migrations_of opts \<noteq> []"
    and "runner d (migrations_of opts) = Resolved r"
    and "success r"
    and "returns_normally (onMigrationsComplete opts) r"
  shows "fst (createApp_bootstrap opts runner props w) = Resolved () \<and>
         migrationsComplete (state (snd (createApp_bootstrap opts runner props w))) \<and>
         migrationsComplete (databaseContext (snd (createApp_bootstrap opts runner props w))) \<and>
         migrationResult (state (snd (createApp_bootstrap opts runner props w))) = Some r \<and>
         migrationResult (databaseContext (snd (createApp_bootstrap opts runner props w))) = Some r \<and>
         trace (snd (createApp_bootstrap opts runner props w)) =
           trace w @ [Call_runMigrations d (migrations_of opts)] @
           call_if_supplied (onMigrationsComplete opts) (Call_onMigrationsComplete r)"
  using assms
  by (simp add: bootstrap_with_db bootstrap_resume_def try_body_def world_simps
      returns_normally_def call_if_supplied_def Let_def split: option.splits)

text \<open>
  C1. After a runner that resolves with \<open>{success: true, executed: 1}\<close>, the specification asks for
  \<open>migrationsComplete\<close> true and no call of \<open>onMigrationError\<close>. With an
  \<open>onMigrationsComplete\<close> that throws, the code does otherwise: the callback is called
  inside the \<open>try\<close>, so the \<open>catch\<close> block logs a migration failure, resets
  \<open>migrationsComplete\<close> to false in both records, beside the stored result whose
  \<open>success\<close> is true, and calls \<open>onMigrationError\<close> with what the callback threw;
  \<open>bootstrap\<close> resolves.
\<close>

theorem bootstrap_success_callback_throws:
  "props_db props_with_db = Some 1 \<and>
   migrations_of (example_options (Some cb_throws) (Some cb_returns)) \<noteq> [] \<and>
   runner_resolves result_ok 1 (migrations_of (example_options (Some cb_throws) (Some cb_returns)))
     = Resolved result_ok \<and>
   success result_ok \<and>
   fst (createApp_bootstrap (example_options (Some cb_throws) (Some cb_returns))
          (runner_resolves result_ok) props_with_db createApp_world) = Resolved () \<and>
   \<not> migrationsComplete (state (snd (createApp_bootstrap
          (example_options (Some cb_throws) (Some cb_returns))
          (runner_resolves result_ok) props_with_db createApp_world))) \<and>
   \<not> migrationsComplete (databaseContext (snd (createApp_bootstrap
          (example_options (Some cb_throws) (Some cb_returns))
          (runner_resolves result_ok) props_with_db createApp_world))) \<and>
   migrationResult (state (snd (createApp_bootstrap
          (example_options (Some cb_throws) (Some cb_returns))
          (runner_resolves result_ok) props_with_db createApp_world))) = Some result_ok \<and>
   trace (snd (createApp_bootstrap (example_options (Some cb_throws) (Some cb_returns))
          (runner_resolves result_ok) props_with_db createApp_world)) =
     [Call_runMigrations 1 example_migrations,
      Call_onMigrationsComplete result_ok,
      Console_error ''[my-vue-app] Migration failed:'' (ErrorObject (Error ''callback failed'')),
      Call_onMigrationError (Error ''callback failed'')]"
  by (simp add: example_defs bootstrap_defs)

text \<open>
  When the runner reports a failure with the message \<open>M\<close> and \<open>onMigrationError\<close> is absent
  or returns normally from the call with an \<open>Error\<close> of that message, \<open>bootstrap\<close>
  resolves with \<open>migrationsComplete\<close> false and the result stored in both records, after one
  call of the runner and, when supplied, one call of the callback.
\<close>

lemma bootstrap_failure_callback_returns:
  assumes "props_db props = Some d" and "migrations_of opts \<noteq> []"
    and "runner d (migrations_of opts) = Resolved r"
    and "\<not> success r" and "error r = Some e" and "message e = M"
    and "returns_normally (onMigrationError opts) (Error M)"
  shows "fst (createApp_bootstrap opts runner props w) = Resolved () \<and>
         \<not> migrationsComplete (state (snd (createApp_bootstrap opts runner props w))) \<and>
         \<not> migrationsComplete (databaseContext (snd (createApp_bootstrap opts runner props w))) \<and>
         migrationResult (state (snd (createApp_bootstrap opts runner props w))) = Some r \<and>
         migrationResult (databaseContext (snd (createApp_bootstrap opts runner props w))) = Some r \<and>
         trace (snd (createApp_bootstrap opts runner props w)) =
           trace w @ [Call_runMigrations d (migrations_of opts)] @
           call_if_supplied (onMigrationError opts) (Call_onMigrationError (Error M))"
  using assms
  by (simp add: bootstrap_with_db bootstrap_resume_def try_body_def world_simps
      returns_normally_def call_if_supplied_def Let_def split: option.splits)

text \<open>
  C2. After a runner that resolves with \<open>{success: false, error: {message: 'disk full'}}\<close>,
  the specification asks for exactly one call of \<open>onMigrationError\<close>. With an \<open>onMigrationError\<close>
  that throws at that call, the code makes two: the first call is inside the \<open>try\<close>, so the
  \<open>catch\<close> block logs a migration failure and calls the callback again, with what it threw;
  when the second call returns, \<open>bootstrap\<close> resolves.
\<close>

theorem bootstrap_failure_callback_called_twice:
  "props_db props_with_db = Some 1 \<and>
   migrations_of (example_options None (Some cb_throws_on_disk_full)) \<noteq> [] \<and>
   runner_resolves result_failed 1 (migrations_of (example_options None (Some cb_throws_on_disk_full)))
     = Resolved result_failed \<and>
   \<not> success result_failed \<and>
   error result_failed = Some (ErrorDescriptor ''disk full'') \<and>
   fst (createApp_bootstrap (example_options None (Some cb_throws_on_disk_full))
          (runner_resolves result_failed) props_with_db createApp_world) = Resolved () \<and>
   trace (snd (createApp_bootstrap (example_options None (Some cb_throws_on_disk_full))
          (runner_resolves result_failed) props_with_db createApp_world)) =
     [Call_runMigrations 1 example_migrations,
      Call_onMigrationError (Error ''disk full''),
      Console_error ''[my-vue-app] Migration failed:'' (ErrorObject (Error ''handler failed'')),
      Call_onMigrationError (Error ''handler failed'')]"
  by (simp add: example_defs bootstrap_defs)

text \<open>
  C3, as amended. Props carry a database handle, the migrations list is not empty and the
  runner raises \<open>v\<close>. Then \<open>migrationsComplete\<close> is false in both records,
  \<open>migrationResult\<close> is what it was before the call (null for the records as \<open>createApp\<close>
  made them), and the failure is logged. When \<open>onMigrationError\<close> is supplied, \<open>v\<close> is
  converted, to itself when it is an \<open>Error\<close> and to \<open>new Error(String(v))\<close> otherwise;
  when the conversion does not throw, the callback is called exactly once, with the converted
  error. \<open>bootstrap\<close> resolves when the callback is absent, or when the conversion does not
  throw and the callback returns normally; otherwise it rejects with what the conversion or
  the callback threw.
\<close>

theorem bootstrap_runner_raises:
  assumes "props_db props = Some d" and "migrations_of opts \<noteq> []"
    and "runner d (migrations_of opts) = Rejected v"
  shows "\<not> migrationsComplete (state (snd (createApp_bootstrap opts runner props w))) \<and>
         \<not> migrationsComplete (databaseContext (snd (createApp_bootstrap opts runner props w))) \<and>
         migrationResult (state (snd (createApp_bootstrap opts runner props w))) =
           migrationResult (state w) \<and>
         migrationResult (databaseContext (snd (createApp_bootstrap opts runner props w))) =
           migrationResult (databaseContext w) \<and>
         migrationResult (state (snd (createApp_bootstrap opts runner props createApp_world))) = None \<and>
         migrationResult (databaseContext (snd (createApp_bootstrap opts runner props createApp_world))) = None \<and>
         trace (snd (createApp_bootstrap opts runner props w)) =
           trace w @ [Call_runMigrations d (migrations_of opts),
                      Console_error (''['' @ name opts @ ''] Migration failed:'') v] @
           (case as_Error v of
              Inl thrown \<Rightarrow> []
            | Inr e \<Rightarrow> call_if_supplied (onMigrationError opts) (Call_onMigrationError e)) \<and>
         fst (createApp_bootstrap opts runner props w) =
           (case onMigrationError opts of
              None \<Rightarrow> Resolved ()
            | Some f \<Rightarrow>
                (case as_Error v of
                   Inl thrown \<Rightarrow> Rejected thrown
                 | Inr e \<Rightarrow> (case f e of None \<Rightarrow> Resolved () | Some thrown \<Rightarrow> Rejected thrown)))"
  using assms
  by (auto simp: bootstrap_with_db bootstrap_resume_def catch_block_def world_simps
      call_if_supplied_def Let_def createApp_world_def split: option.splits sum.splits)

text \<open>An instance of C3: the runner throws a string, and the callback returns.\<close>

theorem bootstrap_runner_raises_witness:
  "props_db props_with_db = Some 1 \<and>
   migrations_of (example_options None (Some cb_returns)) \<noteq> [] \<and>
   runner_rejects (Other (JsString ''connection lost'')) 1
     (migrations_of (example_options None (Some cb_returns)))
     = Rejected (Other (JsString ''connection lost'')) \<and>
   fst (createApp_bootstrap (example_options None (Some cb_returns))
          (runner_rejects (Other (JsString ''connection lost''))) props_with_db createApp_world)
     = Resolved () \<and>
   \<not> migrationsComplete (state (snd (createApp_bootstrap (example_options None (Some cb_returns))
          (runner_rejects (Other (JsString ''connection lost''))) props_with_db createApp_world))) \<and>
   migrationResult (state (snd (createApp_bootstrap (example_options None (Some cb_returns))
          (runner_rejects (Other (JsString ''connection lost''))) props_with_db createApp_world)))
     = None \<and>
   trace (snd (createApp_bootstrap (example_options None (Some cb_returns))
          (runner_rejects (Other (JsString ''connection lost''))) props_with_db createApp_world)) =
     [Call_runMigrations 1 example_migrations,
      Console_error ''[my-vue-app] Migration failed:'' (Other (JsString ''connection lost'')),
      Call_onMigrationError (Error ''connection lost'')]"
proof -
  let ?opts = "example_options None (Some cb_returns)"
  let ?v = "Other (JsString ''connection lost'')"
  have h1: "props_db props_with_db = Some 1" by (simp add: example_defs)
  have h2: "migrations_of ?opts \<noteq> []" by (simp add: example_defs)
  have h3: "runner_rejects ?v 1 (migrations_of ?opts) = Rejected ?v"
    by (simp add: example_defs)
  have ms: "migrations_of ?opts = example_migrations"
    by (simp add: migrations_of_def example_options_def)
  have cv: "as_Error ?v = Inr (Error ''connection lost'')" by simp
  have cb: "onMigrationError ?opts = Some cb_returns" by (simp add: example_options_def)
  have rt: "cb_returns (Error ''connection lost'') = None" by (simp add: cb_returns_def)
  have nm: "name ?opts = ''my-vue-app''" by (simp add: example_options_def)
  have tr: "trace createApp_world = []" by (simp add: createApp_world_def)
  have mr: "migrationResult (state createApp_world) = None"
    by (simp add: createApp_world_def)
  show ?thesis
    using h1 h2 h3 mr
      bootstrap_runner_raises [where runner = "runner_rejects ?v" and w = createApp_world,
        OF h1 h2 h3]
    unfolding ms cv cb nm tr by (simp add: call_if_supplied_def rt)
qed

text \<open>
  C3 as it is stated fails in two ways. With an \<open>onMigrationError\<close> that throws, its call
  in the \<open>catch\<close> block is not guarded, so \<open>bootstrap\<close> rejects: a callback that throws
  its argument again lets the runner's own error out of \<open>bootstrap\<close>. And when the runner
  throws \<open>Object.create(null)\<close>, \<open>String(error)\<close> throws in the \<open>catch\<close> block:
  \<open>bootstrap\<close> rejects and the callback is not called.
\<close>

theorem bootstrap_runner_raises_rejects:
  "props_db props_with_db = Some 1 \<and>
   migrations_of (example_options None (Some cb_rethrows)) \<noteq> [] \<and>
   runner_rejects (ErrorObject (Error ''connection lost'')) 1
     (migrations_of (example_options None (Some cb_rethrows)))
     = Rejected (ErrorObject (Error ''connection lost'')) \<and>
   fst (createApp_bootstrap (example_options None (Some cb_rethrows))
          (runner_rejects (ErrorObject (Error ''connection lost''))) props_with_db createApp_world)
     = Rejected (ErrorObject (Error ''connection lost'')) \<and>
   runner_rejects null_prototype_object 1
     (migrations_of (example_options None (Some cb_returns)))
     = Rejected null_prototype_object \<and>
   fst (createApp_bootstrap (example_options None (Some cb_returns))
          (runner_rejects null_prototype_object) props_with_db createApp_world)
     = Rejected (ErrorObject (Error ''Cannot convert object to primitive value'')) \<and>
   trace (snd (createApp_bootstrap (example_options None (Some cb_returns))
          (runner_rejects null_prototype_object) props_with_db createApp_world)) =
     [Call_runMigrations 1 example_migrations,
      Console_error ''[my-vue-app] Migration failed:'' null_prototype_object]"
  by (simp add: example_defs bootstrap_defs)

text \<open>
  C10. Props carry a database handle, the migrations list is not empty, and the runner
  resolves with a result whose \<open>success\<close> is false and that has no error descriptor. Then
  \<open>bootstrap\<close> resolves, \<open>migrationResult\<close> is that result and \<open>migrationsComplete\<close> is
  false in both records, and the call of the runner is the only outside effect: no callback
  is called.
\<close>

theorem bootstrap_silent_failure:
  assumes "props_db props = Some d" and "migrations_of opts \<noteq> []"
    and "runner d (migrations_of opts) = Resolved r"
    and "\<not> success r" and "error r = None"
  shows "fst (createApp_bootstrap opts runner props w) = Resolved () \<and>
         \<not> migrationsComplete (state (snd (createApp_bootstrap opts runner props w))) \<and>
         \<not> migrationsComplete (databaseContext (snd (createApp_bootstrap opts runner props w))) \<and>
         migrationResult (state (snd (createApp_bootstrap opts runner props w))) = Some r \<and>
         migrationResult (databaseContext (snd (createApp_bootstrap opts runner props w))) = Some r \<and>
         trace (snd (createApp_bootstrap opts runner props w)) =
           trace w @ [Call_runMigrations d (migrations_of opts)]"
  using assms
  by (simp add: bootstrap_with_db bootstrap_resume_def try_body_def world_simps Let_def)

text \<open>An instance of C10, with callbacks that would throw if they were called.\<close>

theorem bootstrap_silent_failure_witness:
  "props_db props_with_db = Some 1 \<and>
   migrations_of (example_options (Some cb_throws) (Some cb_throws)) \<noteq> [] \<and>
   runner_resolves result_silent 1
     (migrations_of (example_options (Some cb_throws) (Some cb_throws))) = Resolved result_silent \<and>
   \<not> success result_silent \<and> error result_silent = None \<and>
   fst (createApp_bootstrap (example_options (Some cb_throws) (Some cb_throws))
          (runner_resolves result_silent) props_with_db createApp_world) = Resolved () \<and>
   migrationResult (state (snd (createApp_bootstrap
          (example_options (Some cb_throws) (Some cb_throws))
          (runner_resolves result_silent) props_with_db createApp_world))) = Some result_silent \<and>
   trace (snd (createApp_bootstrap (example_options (Some cb_throws) (Some cb_throws))
          (runner_resolves result_silent) props_with_db createApp_world)) =
     [Call_runMigrations 1 example_migrations]"
proof -
  let ?opts = "example_options (Some cb_throws) (Some cb_throws)"
  have h1: "props_db props_with_db = Some 1" by (simp add: example_defs)
  have h2: "migrations_of ?opts \<noteq> []" by (simp add: example_defs)
  have h3: "runner_resolves result_silent 1 (migrations_of ?opts) = Resolved result_silent"
    by (simp add: example_defs)
  have h4: "\<not> success result_silent" by (simp add: example_defs)
  have h5: "error result_silent = None" by (simp add: example_defs)
  have ms: "migrations_of ?opts = example_migrations"
    by (simp add: migrations_of_def example_options_def)
  have tr: "trace createApp_world = []" by (simp add: createApp_world_def)
  show ?thesis
    using h1 h2 h3 h4 h5 bootstrap_silent_failure [where runner = "runner_resolves result_silent" and w = createApp_world,
        OF h1 h2 h3 h4 h5]
    unfolding ms tr by simp
qed

section \<open>Bootstrap without a database handle\<close>

lemma begin_without_db:
  "props_db props = None \<Longrightarrow>
   bootstrap_begin opts props w =
     Returned (set_migrationsComplete True
       (emit (Console_warn (''['' @ name opts @ ''] No database provided in lifecycle props'')) w))"
  by (simp add: bootstrap_begin_def)

text \<open>
  C4, as amended. Props carry no database handle. Whatever the options, so whatever the
  migrations list, whatever the runner and whatever the records hold before the call,
  \<open>bootstrap\<close> resolves with \<open>migrationsComplete\<close> true in both records and leaves
  \<open>db\<close> and \<open>migrationResult\<close> in both as they were: \<open>migrationResult\<close> is null after
  the call where it was null before it, as in the records that \<open>createApp\<close> made. The only
  outside effect is the warning: the runner is not called, and the outcome does not depend
  on it.
\<close>

theorem bootstrap_without_db:
  assumes "props_db props = None"
  shows "fst (createApp_bootstrap opts runner props w) = Resolved () \<and>
         migrationsComplete (state (snd (createApp_bootstrap opts runner props w))) \<and>
         migrationsComplete (databaseContext (snd (createApp_bootstrap opts runner props w))) \<and>
         migrationResult (state (snd (createApp_bootstrap opts runner props w))) =
           migrationResult (state w) \<and>
         migrationResult (databaseContext (snd (createApp_bootstrap opts runner props w))) =
           migrationResult (databaseContext w) \<and>
         db (state (snd (createApp_bootstrap opts runner props w))) = db (state w) \<and>
         db (databaseContext (snd (createApp_bootstrap opts runner props w))) =
           db (databaseContext w) \<and>
         trace (snd (createApp_bootstrap opts runner props w)) =
           trace w @ [Console_warn (''['' @ name opts @ ''] No database provided in lifecycle props'')] \<and>
         runner_calls (snd (createApp_bootstrap opts runner props w)) = runner_calls w \<and>
         createApp_bootstrap opts runner props w = createApp_bootstrap opts runner' props w \<and>
         migrationResult (state (snd (createApp_bootstrap opts runner props createApp_world))) = None \<and>
         migrationResult (databaseContext (snd (createApp_bootstrap opts runner props createApp_world))) = None"
  using assms
  by (simp add: createApp_bootstrap_def begin_without_db world_simps createApp_world_def
      runner_calls_def)

text \<open>An instance of C4: the first bootstrap of a lifecycle whose migrations list is not
  empty.\<close>

theorem bootstrap_without_db_witness:
  "props_db props_without_db = None \<and>
   migrations_of (example_options None None) \<noteq> [] \<and>
   fst (createApp_bootstrap (example_options None None) (runner_resolves result_ok)
          props_without_db createApp_world) = Resolved () \<and>
   migrationsComplete (state (snd (createApp_bootstrap (example_options None None)
          (runner_resolves result_ok) props_without_db createApp_world))) \<and>
   migrationsComplete (databaseContext (snd (createApp_bootstrap (example_options None None)
          (runner_resolves result_ok) props_without_db createApp_world))) \<and>
   migrationResult (state (snd (createApp_bootstrap (example_options None None)
          (runner_resolves result_ok) props_without_db createApp_world))) = None \<and>
   migrationResult (databaseContext (snd (createApp_bootstrap (example_options None None)
          (runner_resolves result_ok) props_without_db createApp_world))) = None \<and>
   trace (snd (createApp_bootstrap (example_options None None)
          (runner_resolves result_ok) props_without_db createApp_world)) =
     [Console_warn ''[my-vue-app] No database provided in lifecycle props'']"
proof -
  have h1: "props_db props_without_db = None" by (simp add: example_defs)
  have h2: "migrations_of (example_options None None) \<noteq> []" by (simp add: example_defs)
  have nm: "name (example_options None None) = ''my-vue-app''" by (simp add: example_options_def)
  have tr: "trace createApp_world = []" by (simp add: createApp_world_def)
  have mr: "migrationResult (state createApp_world) = None"
    "migrationResult (databaseContext createApp_world) = None"
    by (simp_all add: createApp_world_def)
  show ?thesis
    using h1 h2 mr
      bootstrap_without_db [OF h1, where opts = "example_options None None"
        and runner = "runner_resolves result_ok" and w = createApp_world
        and runner' = "runner_resolves result_ok"]
    unfolding nm tr by simp
qed

text \<open>
  C4 as it is stated fails for a call that is not the lifecycle's first: the branch writes
  neither \<open>db\<close> nor \<open>migrationResult\<close>, so after a bootstrap that ran the migrations, a
  bootstrap without a database handle resolves with the earlier result still stored.
\<close>

theorem bootstrap_without_db_keeps_result:
  "props_db props_without_db = None \<and>
   fst (createApp_bootstrap (example_options None None) (runner_resolves result_ok)
          props_without_db
          (snd (createApp_bootstrap (example_options None None) (runner_resolves result_ok)
                  props_with_db createApp_world))) = Resolved () \<and>
   migrationResult (state (snd (createApp_bootstrap (example_options None None)
          (runner_resolves result_ok) props_without_db
          (snd (createApp_bootstrap (example_options None None) (runner_resolves result_ok)
                  props_with_db createApp_world))))) = Some result_ok \<and>
   migrationResult (databaseContext (snd (createApp_bootstrap (example_options None None)
          (runner_resolves result_ok) props_without_db
          (snd (createApp_bootstrap (example_options None None) (runner_resolves result_ok)
                  props_with_db createApp_world))))) = Some result_ok \<and>
   Some result_ok \<noteq> (None :: MigrationResult option)"
  by (simp add: example_defs bootstrap_defs)

section \<open>The two records stay in agreement\<close>

lemma agree_writes:
  "agree w \<Longrightarrow> agree (emit e w)"
  "agree w \<Longrightarrow> agree (set_db d w)"
  "agree w \<Longrightarrow> agree (set_migrationsComplete b w)"
  "agree w \<Longrightarrow> agree (store_result r w)"
  by (simp_all add: agree_def world_simps Let_def)

lemma agree_call_optional: "agree w \<Longrightarrow> agree (snd (call_optional cb ev arg w))"
  by (simp add: call_optional_def agree_writes split: option.splits sum.splits)

lemma agree_begin: "agree w \<Longrightarrow> agree (world_of (bootstrap_begin opts props w))"
  by (simp add: bootstrap_begin_def agree_writes Let_def split: option.splits)

lemma agree_try_body: "agree w \<Longrightarrow> agree (snd (try_body opts r w))"
  by (simp add: try_body_def Let_def agree_writes agree_call_optional split: option.splits)

lemma snd_catch_block:
  "snd (catch_block opts v w) =
     snd (call_optional (onMigrationError opts) Call_onMigrationError (as_Error v)
            (set_migrationsComplete False
               (emit (Console_error (''['' @ name opts @ ''] Migration failed:'') v) w)))"
  by (simp add: catch_block_def Let_def split: prod.splits option.splits)

lemma agree_catch_block: "agree w \<Longrightarrow> agree (snd (catch_block opts v w))"
  unfolding snd_catch_block by (intro agree_call_optional agree_writes)

lemma agree_resume: "agree w \<Longrightarrow> agree (snd (bootstrap_resume opts outcome w))"
proof (cases outcome)
  case (Resolved r)
  assume a: "agree w"
  obtain x w1 where t: "try_body opts r w = (x, w1)" by (cases "try_body opts r w")
  have "agree w1" using agree_try_body [OF a, of opts r] t by simp
  then show ?thesis using Resolved t a
    by (simp add: bootstrap_resume_def agree_catch_block split: option.splits)
next
  case (Rejected v)
  assume "agree w"
  then show ?thesis using Rejected by (simp add: bootstrap_resume_def agree_catch_block)
next
  case Pending
  assume "agree w"
  then show ?thesis using Pending by (simp add: bootstrap_resume_def)
qed

lemma agree_bootstrap: "agree w \<Longrightarrow> agree (snd (createApp_bootstrap opts runner props w))"
proof -
  assume a: "agree w"
  show ?thesis
  proof (cases "bootstrap_begin opts props w")
    case (Returned w1)
    then show ?thesis using agree_begin [OF a, of opts props]
      by (simp add: createApp_bootstrap_def)
  next
    case (Awaiting d ms w1)
    then have "agree w1" using agree_begin [OF a, of opts props] by simp
    then show ?thesis using Awaiting
      by (simp add: createApp_bootstrap_def agree_resume)
  qed
qed

text \<open>
  C6. The records as \<open>createApp\<close> made them agree on \<open>db\<close>, \<open>migrationsComplete\<close> and
  \<open>migrationResult\<close>. Each group of assignments of \<open>bootstrap\<close> keeps them in agreement,
  and so they agree where \<open>bootstrap\<close> is suspended on the runner or has returned without
  calling it, after it has resumed from there, and after the whole call, whatever the runner
  and the callbacks do.
\<close>

theorem shared_fields_agree:
  "agree createApp_world \<and>
   (agree w \<longrightarrow>
      agree (set_db d w) \<and> agree (set_migrationsComplete b w) \<and> agree (store_result r w) \<and>
      agree (world_of (bootstrap_begin opts props w)) \<and>
      agree (snd (bootstrap_resume opts outcome w)) \<and>
      agree (snd (createApp_bootstrap opts runner props w)))"
  by (simp add: agree_writes agree_begin agree_resume agree_bootstrap)
     (simp add: agree_def createApp_world_def)

text \<open>An instance of C6: a bootstrap that goes through the \<open>try\<close> and the \<open>catch\<close>.\<close>

theorem shared_fields_agree_witness:
  "agree createApp_world \<and>
   agree (snd (createApp_bootstrap (example_options (Some cb_throws) (Some cb_returns))
                 (runner_resolves result_ok) props_with_db createApp_world))"
  using shared_fields_agree [of createApp_world] by simp

section \<open>Bootstrap is not idempotent\<close>

lemma runner_calls_emit:
  "runner_calls (emit e w) = runner_calls w + (if is_runner_call e then 1 else 0)"
  by (simp add: runner_calls_def emit_def)

lemma runner_calls_writes:
  "runner_calls (set_db d w) = runner_calls w"
  "runner_calls (set_migrationsComplete b w) = runner_calls w"
  "runner_calls (store_result r w) = runner_calls w"
  by (simp_all add: runner_calls_def set_db_def set_migrationsComplete_def store_result_def Let_def)

lemma runner_calls_call_optional:
  "(\<And>x. \<not> is_runner_call (ev x)) \<Longrightarrow>
   runner_calls (snd (call_optional cb ev arg w)) = runner_calls w"
  by (simp add: call_optional_def runner_calls_emit split: option.splits sum.splits)

lemma runner_calls_try_body: "runner_calls (snd (try_body opts r w)) = runner_calls w"
  by (simp add: try_body_def Let_def runner_calls_call_optional runner_calls_writes
      split: option.splits)

lemma runner_calls_catch_block: "runner_calls (snd (catch_block opts v w)) = runner_calls w"
  unfolding snd_catch_block
  by (simp add: runner_calls_call_optional runner_calls_writes runner_calls_emit)

lemma runner_calls_resume: "runner_calls (snd (bootstrap_resume opts outcome w)) = runner_calls w"
proof (cases outcome)
  case (Resolved r)
  obtain x w1 where t: "try_body opts r w = (x, w1)" by (cases "try_body opts r w")
  have "runner_calls w1 = runner_calls w" using runner_calls_try_body [of opts r w] t by simp
  then show ?thesis using Resolved t
    by (simp add: bootstrap_resume_def runner_calls_catch_block split: option.splits)
next
  case (Rejected v)
  then show ?thesis by (simp add: bootstrap_resume_def runner_calls_catch_block)
next
  case Pending
  then show ?thesis by (simp add: bootstrap_resume_def)
qed

lemma runner_calls_bootstrap:
  "props_db props = Some d \<Longrightarrow> migrations_of opts \<noteq> [] \<Longrightarrow>
   runner_calls (snd (createApp_bootstrap opts runner props w)) = runner_calls w + 1"
  by (simp add: bootstrap_with_db runner_calls_resume runner_calls_emit runner_calls_writes)

text \<open>
  C9. With a non-empty migrations list and props that carry a database handle, two calls of
  \<open>bootstrap\<close> in sequence call the runner twice, whatever the runner and the callbacks do.
\<close>

theorem bootstrap_twice_runs_runner_twice:
  assumes "props_db props1 = Some d1" and "props_db props2 = Some d2"
    and "migrations_of opts \<noteq> []"
  shows "runner_calls (snd (createApp_bootstrap opts runner2 props2
                         (snd (createApp_bootstrap opts runner1 props1 w)))) =
         runner_calls w + 2"
  using assms by (simp add: runner_calls_bootstrap)

text \<open>An instance of C9, starting from the records as \<open>createApp\<close> made them.\<close>

theorem bootstrap_twice_runs_runner_twice_witness:
  "props_db props_with_db = Some 1 \<and>
   migrations_of (example_options None None) \<noteq> [] \<and>
   runner_calls createApp_world = 0 \<and>
   runner_calls (snd (createApp_bootstrap (example_options None None) (runner_resolves result_ok)
                   props_with_db
                   (snd (createApp_bootstrap (example_options None None)
                           (runner_resolves result_ok) props_with_db createApp_world)))) = 2"
proof -
  have h1: "props_db props_with_db = Some 1" by (simp add: example_defs)
  have h2: "migrations_of (example_options None None) \<noteq> []" by (simp add: example_defs)
  have z: "runner_calls createApp_world = 0" by (simp add: runner_calls_def createApp_world_def)
  show ?thesis
    using h1 h2 z bootstrap_twice_runs_runner_twice [OF h1 h1 h2, of "runner_resolves result_ok" "runner_resolves result_ok"
        createApp_world]
    by simp
qed

section \<open>Combined lifecycles\<close>

lemma run_array_append:
  "run_array (fs @ gs) props w =
     (case run_array fs props w of
        (Resolved u, w1) \<Rightarrow> run_array gs props w1
      | (Rejected v, w1) \<Rightarrow> (Rejected v, w1)
      | (Pending, w1) \<Rightarrow> (Pending, w1))"
  by (induction fs arbitrary: w) (auto split: prod.splits promise.splits)

lemma run_array_fixed:
  "(case run_array fs props w of
        (Resolved u, w1) \<Rightarrow> (Resolved (), w1)
      | (Rejected v, w1) \<Rightarrow> (Rejected v, w1)
      | (Pending, w1) \<Rightarrow> (Pending, w1)) = run_array fs props w"
  by (induction fs arbitrary: w) (auto split: prod.splits promise.splits)

lemma runLifecycleFn_phase_fns:
  "runLifecycleFn ph props w = run_array (phase_fns ph) props w"
  by (cases ph) (auto split: prod.splits promise.splits)

text \<open>
  C5. The \<open>bootstrap\<close> of \<open>combineLifecycles(A, B)\<close> runs the bootstrap functions of \<open>A\<close>
  in order and then those of \<open>B\<close>, one after the other on the same state, as the loop of
  \<open>runLifecycleFn\<close> runs one array; its \<open>mount\<close> and \<open>unmount\<close> run those of \<open>B\<close>, and
  are the same whatever \<open>A\<close> is.
\<close>

theorem combineLifecycles_order:
  "runLifecycleFn (bootstrap (combineLifecycles A B)) props w =
     run_array (phase_fns (bootstrap A) @ phase_fns (bootstrap B)) props w \<and>
   runLifecycleFn (mount (combineLifecycles A B)) props w = runLifecycleFn (mount B) props w \<and>
   runLifecycleFn (unmount (combineLifecycles A B)) props w =
     runLifecycleFn (unmount B) props w \<and>
   mount (combineLifecycles A B) = mount (combineLifecycles A' B) \<and>
   unmount (combineLifecycles A B) = unmount (combineLifecycles A' B)"
proof -
  have b: "runLifecycleFn (bootstrap (combineLifecycles A B)) props w =
      run_array (phase_fns (bootstrap A) @ phase_fns (bootstrap B)) props w"
    unfolding run_array_append
    by (simp add: combineLifecycles_def runLifecycleFn_phase_fns run_array_fixed
        split: prod.splits promise.splits)
  have m: "runLifecycleFn (mount (combineLifecycles A B)) props w =
      runLifecycleFn (mount B) props w"
    by (auto simp: combineLifecycles_def split: prod.splits promise.splits)
  have u: "runLifecycleFn (unmount (combineLifecycles A B)) props w =
      runLifecycleFn (unmount B) props w"
    by (auto simp: combineLifecycles_def split: prod.splits promise.splits)
  show ?thesis using b m u by (simp add: combineLifecycles_def)
qed

text \<open>An instance of C5: two lifecycles that write their names to a shared log.\<close>

theorem combineLifecycles_order_witness:
  "runLifecycleFn (bootstrap (combineLifecycles probe_A probe_B)) () [] =
     (Resolved (), [''A.bootstrap.1'', ''A.bootstrap.2'', ''B.bootstrap'']) \<and>
   runLifecycleFn (mount (combineLifecycles probe_A probe_B)) () [] =
     (Resolved (), [''B.mount.1'', ''B.mount.2'']) \<and>
   runLifecycleFn (unmount (combineLifecycles probe_A probe_B)) () [] =
     (Resolved (), [''B.unmount''])"
  using combineLifecycles_order [of probe_A probe_B "()" "[]"]
  by (simp add: probe_A_def probe_B_def probe_def)

section \<open>The composables' fallbacks\<close>

text \<open>
  C7, as amended. \<open>useAuthHeaders\<close> returns the empty mapping when the shell global is
  absent or has no \<open>getAuthHeaders\<close>, returns what \<open>getAuthHeaders\<close> returns when both are
  present, and raises only what \<open>getAuthHeaders\<close> itself raises.
\<close>

theorem useAuthHeaders_cases:
  "(win = None \<longrightarrow> useAuthHeaders win = Inr []) \<and>
   (\<forall>g. win = Some g \<and> getAuthHeaders g = None \<longrightarrow> useAuthHeaders win = Inr []) \<and>
   (\<forall>g f hs. win = Some g \<and> getAuthHeaders g = Some f \<and> f () = Inr hs \<longrightarrow>
      useAuthHeaders win = Inr hs) \<and>
   (\<forall>v. useAuthHeaders win = Inl v \<longrightarrow>
      (\<exists>g f. win = Some g \<and> getAuthHeaders g = Some f \<and> f () = Inl v))"
  by (auto simp: useAuthHeaders_def useEldrinGlobal_def getEldrinGlobal_def split: option.splits)

text \<open>Instances of C7: no shell global, no capability, a capability that returns.\<close>

theorem useAuthHeaders_cases_witness:
  "useAuthHeaders None = Inr [] \<and>
   useAuthHeaders (Some \<lparr> getAuthHeaders = None, user = None \<rparr>) = Inr [] \<and>
   useAuthHeaders (Some \<lparr> getAuthHeaders = Some capability_bearer, user = None \<rparr>) =
     Inr [(''Authorization'', ''Bearer t'')] \<and>
   capability_bearer () = Inr [(''Authorization'', ''Bearer t'')]"
proof -
  have b: "capability_bearer () = Inr [(''Authorization'', ''Bearer t'')]"
    by (simp add: capability_bearer_def)
  show ?thesis
    using useAuthHeaders_cases [of None] useAuthHeaders_cases [of "Some \<lparr> getAuthHeaders = None, user = None \<rparr>"]
      useAuthHeaders_cases [of "Some \<lparr> getAuthHeaders = Some capability_bearer, user = None \<rparr>"] b
    by simp
qed

text \<open>
  C7 as it is stated fails for a shell whose \<open>getAuthHeaders\<close> throws: nothing catches it.
\<close>

theorem useAuthHeaders_raises:
  "useAuthHeaders (Some \<lparr> getAuthHeaders = Some capability_throws, user = None \<rparr>) =
     Inl (ErrorObject (Error ''not signed in''))"
  by (simp add: useAuthHeaders_def useEldrinGlobal_def getEldrinGlobal_def capability_throws_def)

text \<open>
  C8, as amended. Where nothing is provided, \<open>useDatabase\<close> returns null and adds its
  warning to the console, and \<open>useMigrationsComplete\<close> returns false and adds no warning
  of its own; before that the console receives what Vue's \<open>inject\<close> writes when it finds
  nothing, so \<open>useMigrationsComplete\<close> leaves the console as it was under Vue's production
  build, where \<open>inject\<close> writes nothing. Where a context is provided, they return its
  \<open>db\<close> and its \<open>migrationsComplete\<close> and the console is left as it was. Neither
  changes the context.
\<close>

theorem useDatabase_useMigrationsComplete:
  "(injected s = None \<longrightarrow>
      useDatabase s =
        (None, s\<lparr> console := console s @ inject_output s @
                      [''useDatabase() called outside of Eldrin app context''] \<rparr>) \<and>
      useMigrationsComplete s = (False, s\<lparr> console := console s @ inject_output s \<rparr>)) \<and>
   (injected s = None \<and> inject_output s = [] \<longrightarrow> useMigrationsComplete s = (False, s)) \<and>
   (\<forall>context. injected s = Some context \<longrightarrow>
      useDatabase s = (db context, s) \<and>
      useMigrationsComplete s = (migrationsComplete context, s)) \<and>
   injected (snd (useDatabase s)) = injected s \<and>
   injected (snd (useMigrationsComplete s)) = injected s"
  by (auto simp: useDatabase_def useMigrationsComplete_def inject_def console_warn_def
      split: option.splits)

text \<open>Instances of C8: nothing provided under the production build and under the
  development build, and a provided context.\<close>

theorem useDatabase_useMigrationsComplete_witness:
  "injected site_production = None \<and> inject_output site_production = [] \<and>
   useDatabase site_production =
     (None, site_production\<lparr> console :=
              [''useDatabase() called outside of Eldrin app context''] \<rparr>) \<and>
   useMigrationsComplete site_production = (False, site_production) \<and>
   injected site_development = None \<and>
   useDatabase site_development =
     (None, site_development\<lparr> console :=
              [''[Vue warn]: injection Symbol(eldrin-database) not found.'',
               ''useDatabase() called outside of Eldrin app context''] \<rparr>) \<and>
   injected site_provided =
     Some \<lparr> db = Some 1, migrationsComplete = True, migrationResult = Some result_ok \<rparr> \<and>
   useDatabase site_provided = (Some 1, site_provided) \<and>
   useMigrationsComplete site_provided = (True, site_provided)"
proof -
  have p: "injected site_production = None" "inject_output site_production = []"
    "console site_production = []"
    by (simp_all add: site_production_def)
  have d: "injected site_development = None"
    "inject_output site_development =
       [''[Vue warn]: injection Symbol(eldrin-database) not found.'']"
    "console site_development = []"
    by (simp_all add: site_development_def)
  have c: "injected site_provided =
      Some \<lparr> db = Some 1, migrationsComplete = True, migrationResult = Some result_ok \<rparr>"
    by (simp add: site_provided_def)
  show ?thesis
    using p d c
      useDatabase_useMigrationsComplete [of site_production]
      useDatabase_useMigrationsComplete [of site_development]
      useDatabase_useMigrationsComplete [of site_provided]
    by simp
qed

text \<open>
  C8 as it is stated fails under Vue's development build: \<open>inject\<close> is called without a
  default value, so where nothing is provided Vue warns, and \<open>useMigrationsComplete\<close> is
  not silent there; \<open>useDatabase\<close> leaves two warnings.
\<close>

theorem useMigrationsComplete_not_silent:
  "injected site_development = None \<and>
   console site_development = [] \<and>
   fst (useMigrationsComplete site_development) = False \<and>
   console (snd (useMigrationsComplete site_development)) =
     [''[Vue warn]: injection Symbol(eldrin-database) not found.''] \<and>
   fst (useDatabase site_development) = None \<and>
   console (snd (useDatabase site_development)) =
     [''[Vue warn]: injection Symbol(eldrin-database) not found.'',
      ''useDatabase() called outside of Eldrin app context'']"
  by (simp add: site_development_def useMigrationsComplete_def useDatabase_def inject_def
      console_warn_def)

end
